theory Spec2Isabelle
  imports Complex_Main "HOL-Library.AList"
begin

section \<open>Values, errors and tables\<close>

text \<open>
  Numbers are modelled as mathematical reals: rounding of the 64-bit floats that numpy and
  pandas compute with is not modelled. The one place where the special float values decide
  the outcome is the z-scoring of the Credit Availability Index, which divides by a standard
  deviation that may be zero; there the values are \<open>float64\<close> below, a real or one of the
  three special values of IEEE arithmetic (signed zeros are not distinguished).

  \<open>KeyError\<close> and \<open>IndexError\<close> are the exceptions pandas raises on a missing column and on
  \<open>iloc[-1]\<close> of an empty table. \<open>MissingFieldError\<close> and \<open>DomainError\<close> are named by the
  specification only; no code path of the repository constructs them.
\<close>

datatype error = KeyError string | IndexError | MissingFieldError | DomainError

datatype float64 = Fin real | PInf | NInf | NaN

definition fneg :: "float64 \<Rightarrow> float64" where
  "fneg a = (case a of Fin x \<Rightarrow> Fin (- x) | PInf \<Rightarrow> NInf | NInf \<Rightarrow> PInf | NaN \<Rightarrow> NaN)"

definition fadd :: "float64 \<Rightarrow> float64 \<Rightarrow> float64" where
  "fadd a b =
     (case a of
        NaN \<Rightarrow> NaN
      | PInf \<Rightarrow> (case b of NaN \<Rightarrow> NaN | NInf \<Rightarrow> NaN | PInf \<Rightarrow> PInf | Fin y \<Rightarrow> PInf)
      | NInf \<Rightarrow> (case b of NaN \<Rightarrow> NaN | PInf \<Rightarrow> NaN | NInf \<Rightarrow> NInf | Fin y \<Rightarrow> NInf)
      | Fin x \<Rightarrow> (case b of NaN \<Rightarrow> NaN | PInf \<Rightarrow> PInf | NInf \<Rightarrow> NInf | Fin y \<Rightarrow> Fin (x + y)))"

definition fsub :: "float64 \<Rightarrow> float64 \<Rightarrow> float64" where
  "fsub a b = fadd a (fneg b)"

definition signed_inf :: "bool \<Rightarrow> float64" where
  "signed_inf positive = (if positive then PInf else NInf)"

definition fmul :: "float64 \<Rightarrow> float64 \<Rightarrow> float64" where
  "fmul a b =
     (case a of
        NaN \<Rightarrow> NaN
      | PInf \<Rightarrow> (case b of NaN \<Rightarrow> NaN | PInf \<Rightarrow> PInf | NInf \<Rightarrow> NInf
                 | Fin y \<Rightarrow> if y = 0 then NaN else signed_inf (0 < y))
      | NInf \<Rightarrow> (case b of NaN \<Rightarrow> NaN | PInf \<Rightarrow> NInf | NInf \<Rightarrow> PInf
                 | Fin y \<Rightarrow> if y = 0 then NaN else signed_inf (y < 0))
      | Fin x \<Rightarrow> (case b of NaN \<Rightarrow> NaN
                 | PInf \<Rightarrow> if x = 0 then NaN else signed_inf (0 < x)
                 | NInf \<Rightarrow> if x = 0 then NaN else signed_inf (x < 0)
                 | Fin y \<Rightarrow> Fin (x * y)))"

definition fdiv :: "float64 \<Rightarrow> float64 \<Rightarrow> float64" where
  "fdiv a b =
     (case a of
        NaN \<Rightarrow> NaN
      | PInf \<Rightarrow> (case b of NaN \<Rightarrow> NaN | PInf \<Rightarrow> NaN | NInf \<Rightarrow> NaN
                 | Fin y \<Rightarrow> signed_inf (0 \<le> y))
      | NInf \<Rightarrow> (case b of NaN \<Rightarrow> NaN | PInf \<Rightarrow> NaN | NInf \<Rightarrow> NaN
                 | Fin y \<Rightarrow> signed_inf (y < 0))
      | Fin x \<Rightarrow> (case b of NaN \<Rightarrow> NaN | PInf \<Rightarrow> Fin 0 | NInf \<Rightarrow> Fin 0
                 | Fin y \<Rightarrow> if y \<noteq> 0 then Fin (x / y)
                            else if x = 0 then NaN else signed_inf (0 < x)))"

text \<open>\<open>Series.clip(lower, upper)\<close>: a NaN stays a NaN, infinities go to the bounds.\<close>

definition fclip :: "float64 \<Rightarrow> real \<Rightarrow> real \<Rightarrow> float64" where
  "fclip a lower upper =
     (case a of NaN \<Rightarrow> NaN | PInf \<Rightarrow> Fin upper | NInf \<Rightarrow> Fin lower
      | Fin x \<Rightarrow> Fin (min (max x lower) upper))"

text \<open>\<open>np.clip(x, lo, hi)\<close> on a number.\<close>

definition clip :: "real \<Rightarrow> real \<Rightarrow> real \<Rightarrow> real" where
  "clip x lo hi = min (max x lo) hi"

text \<open>
  A pandas \<open>DataFrame\<close> of numeric columns: the length of its index and its columns in
  order, each a list of values. \<open>df[c]\<close> raises \<open>KeyError\<close> on a missing column;
  \<open>df[c] = xs\<close> replaces the column in place or appends it (\<open>AList.update\<close> does the same).
\<close>

record dataframe =
  nrows :: nat
  columns :: "(string \<times> real list) list"

definition wf_dataframe :: "dataframe \<Rightarrow> bool" where
  "wf_dataframe df \<longleftrightarrow>
     distinct (map fst (columns df)) \<and> list_all (\<lambda>(c, xs). length xs = nrows df) (columns df)"

definition has_column :: "dataframe \<Rightarrow> string \<Rightarrow> bool" where
  "has_column df c \<longleftrightarrow> c \<in> set (map fst (columns df))"

definition getitem :: "dataframe \<Rightarrow> string \<Rightarrow> error + real list" where
  "getitem df c = (case map_of (columns df) c of None \<Rightarrow> Inl (KeyError c) | Some xs \<Rightarrow> Inr xs)"

definition setitem :: "dataframe \<Rightarrow> string \<Rightarrow> real list \<Rightarrow> dataframe" where
  "setitem df c xs = df\<lparr>columns := AList.update c xs (columns df)\<rparr>"

text \<open>The recurring idiom \<open>if c in df.columns: df[c] = f(df[c])\<close>.\<close>

definition modify_column :: "dataframe \<Rightarrow> string \<Rightarrow> (real list \<Rightarrow> real list) \<Rightarrow> dataframe" where
  "modify_column df c f =
     (case map_of (columns df) c of None \<Rightarrow> df | Some xs \<Rightarrow> setitem df c (f xs))"

text \<open>\<open>df.iloc[-1]\<close>: the last row as a mapping from column name to value.\<close>

definition iloc_last :: "dataframe \<Rightarrow> error + (string \<times> real) list" where
  "iloc_last df =
     (if nrows df = 0 then Inl IndexError
      else Inr (map (\<lambda>(c, xs). (c, last xs)) (columns df)))"

section \<open>Credit Availability Index (modeling/core.py)\<close>

record cai_weights =
  w_rate :: real
  w_credit_growth :: real
  w_unemployment :: real
  w_gdp_growth :: real

definition default_weights :: cai_weights where
  "default_weights =
     \<lparr>w_rate = - 3 / 10, w_credit_growth = 4 / 10, w_unemployment = - 2 / 10,
      w_gdp_growth = 1 / 10\<rparr>"

text \<open>
  \<open>Series.mean()\<close> and \<open>Series.std()\<close> (sample standard deviation, \<open>ddof = 1\<close>): NaN on
  an empty series, and for the deviation also on a series of one element.
\<close>

definition series_mean :: "real list \<Rightarrow> float64" where
  "series_mean xs = (if xs = [] then NaN else Fin (sum_list xs / real (length xs)))"

definition series_std :: "real list \<Rightarrow> float64" where
  "series_std xs =
     (if length xs \<le> 1 then NaN
      else let m = sum_list xs / real (length xs)
           in Fin (sqrt (sum_list (map (\<lambda>x. (x - m)\<^sup>2) xs) / real (length xs - 1))))"

definition zscore :: "real list \<Rightarrow> float64 list" where
  "zscore xs = map (\<lambda>x. fdiv (fsub (Fin x) (series_mean xs)) (series_std xs)) xs"

definition series_scale :: "real \<Rightarrow> float64 list \<Rightarrow> float64 list" where
  "series_scale w zs = map (fmul (Fin w)) zs"

definition series_add :: "float64 list \<Rightarrow> float64 list \<Rightarrow> float64 list" where
  "series_add xs ys = map2 fadd xs ys"

definition CreditAvailabilityIndex_calculate ::
  "cai_weights \<Rightarrow> dataframe \<Rightarrow> string \<Rightarrow> string \<Rightarrow> string \<Rightarrow> string \<Rightarrow> error + float64 list" where
  "CreditAvailabilityIndex_calculate weights df rate_col credit_col unemp_col gdp_col =
     (case getitem df rate_col of Inl e \<Rightarrow> Inl e | Inr rate \<Rightarrow>
     (case getitem df credit_col of Inl e \<Rightarrow> Inl e | Inr credit \<Rightarrow>
     (case getitem df unemp_col of Inl e \<Rightarrow> Inl e | Inr unemp \<Rightarrow>
     (case getitem df gdp_col of Inl e \<Rightarrow> Inl e | Inr gdp \<Rightarrow>
        (let rate_z = zscore rate;
             credit_z = zscore credit;
             unemp_z = zscore unemp;
             gdp_z = zscore gdp;
             cai_raw =
               series_add
                 (series_add
                   (series_add (series_scale (w_rate weights) rate_z)
                               (series_scale (w_credit_growth weights) credit_z))
                   (series_scale (w_unemployment weights) unemp_z))
                 (series_scale (w_gdp_growth weights) gdp_z);
             cai = map (\<lambda>v. fadd (Fin 50) (fmul (Fin 10) v)) cai_raw
         in Inr (map (\<lambda>v. fclip v 0 100) cai))))))"

text \<open>A value the specification accepts as an index value: finite and within 0..100.\<close>

definition finite_index :: "float64 \<Rightarrow> bool" where
  "finite_index v = (case v of Fin x \<Rightarrow> 0 \<le> x \<and> x \<le> 100 | PInf \<Rightarrow> False | NInf \<Rightarrow> False | NaN \<Rightarrow> False)"

section \<open>Exposure at Default (modeling/core.py)\<close>

record EADModel =
  ccf :: real

definition EADModel_calculate :: "EADModel \<Rightarrow> real \<Rightarrow> real \<Rightarrow> real option \<Rightarrow> error + real" where
  "EADModel_calculate self drawn_amount commitment usage_rate =
     (let undrawn = commitment - drawn_amount
      in case usage_rate of
           Some u \<Rightarrow> Inr (drawn_amount + u * undrawn)
         | None \<Rightarrow> Inr (drawn_amount + ccf self * undrawn))"

section \<open>Risk-weighted assets (modeling/core.py)\<close>

text \<open>
  \<open>scipy.stats.norm.cdf\<close> and \<open>norm.ppf\<close> are the distribution function of the standard
  normal law and its inverse. The distribution function is written as its power series
  \<open>1/2 + (x - x^3/6 + x^5/40 - ...) / sqrt (2 pi)\<close>, the term-wise integral of the density
  (its derivative is shown below to be \<open>exp (- x^2 / 2) / sqrt (2 pi)\<close>); the inverse is the
  unique point where the distribution function takes the given value.
\<close>

definition gauss_coeff :: "nat \<Rightarrow> real" where
  "gauss_coeff n = (- 1 / 2) ^ n / (fact n * real (2 * n + 1))"

definition gauss_series :: "real \<Rightarrow> real" where
  "gauss_series y = (\<Sum>n. gauss_coeff n * y ^ n)"

definition gauss_integral :: "real \<Rightarrow> real" where
  "gauss_integral x = x * gauss_series (x\<^sup>2)"

definition norm_cdf :: "real \<Rightarrow> real" where
  "norm_cdf x = 1 / 2 + gauss_integral x / sqrt (2 * pi)"

definition norm_ppf :: "real \<Rightarrow> real" where
  "norm_ppf p = (THE x. norm_cdf x = p)"

definition calculate_rwa_simple :: "real \<Rightarrow> real \<Rightarrow> real \<Rightarrow> real \<Rightarrow> real" where
  "calculate_rwa_simple ead pd lgd correlation =
     (let pd = clip pd (1 / 10000) (9999 / 10000);
          phi_inv_pd = norm_ppf pd;
          phi_inv_999 = norm_ppf (999 / 1000);
          sqrt_r = sqrt correlation;
          sqrt_1_r = sqrt (1 - correlation);
          k = lgd * norm_cdf (sqrt_1_r * phi_inv_pd + sqrt_r * phi_inv_999) - pd * lgd;
          b = (11852 / 100000 - 5478 / 100000 * ln pd)\<^sup>2;
          maturity_adj = (1 + (5 / 2 - 5 / 2) * b) / (1 - 3 / 2 * b);
          k_adj = k * maturity_adj
      in ead * k_adj * (25 / 2))"

text \<open>
  The formula as the specification (and the comment above the code) writes it, for comparison
  with the function.
\<close>

definition spec_rwa :: "real \<Rightarrow> real \<Rightarrow> real \<Rightarrow> real \<Rightarrow> real" where
  "spec_rwa ead pd lgd r =
     (let pd = clip pd (1 / 10000) (1 - 1 / 10000);
          k = lgd * norm_cdf (sqrt (1 / (1 - r)) * norm_ppf pd
                               + sqrt (r / (1 - r)) * norm_ppf (999 / 1000)) - pd * lgd;
          b = (11852 / 100000 - 5478 / 100000 * ln pd)\<^sup>2;
          maturity_adj = 1 / (1 - 3 / 2 * b)
      in ead * k * maturity_adj * (25 / 2))"

text \<open>The denominator of the maturity adjustment, \<open>1 - 1.5 b\<close>, named for the proofs.\<close>

definition maturity_denominator :: "real \<Rightarrow> real" where
  "maturity_denominator pd = 1 - 3 / 2 * (11852 / 100000 - 5478 / 100000 * ln pd)\<^sup>2"

section \<open>Portfolio (modeling/portfolio.py)\<close>

text \<open>
  \<open>Portfolio.exposures\<close> is a table with one row per segment. The columns \<open>ecl_12m\<close>,
  \<open>ecl_lifetime\<close> and \<open>rwa\<close> exist only once computed: \<open>None\<close> is a missing cell. The table of
  a new portfolio has no rows and no columns, so reading a column of it raises \<open>KeyError\<close>.
\<close>

record segment_row =
  segment :: string
  seg_type :: string
  n_loans :: int
  avg_exposure :: real
  total_ead :: real
  avg_pd :: real
  avg_lgd :: real
  correlation :: real
  ecl_12m :: "real option"
  ecl_lifetime :: "real option"
  rwa :: "real option"

type_synonym exposures = "segment_row list"

definition add_segment ::
  "exposures \<Rightarrow> string \<Rightarrow> int \<Rightarrow> real \<Rightarrow> real \<Rightarrow> real \<Rightarrow> real \<Rightarrow> string \<Rightarrow> exposures" where
  "add_segment self segment_name n avg_exp pd lgd corr segment_type =
     (let total = real_of_int n * avg_exp
      in self @ [\<lparr>segment = segment_name, seg_type = segment_type, n_loans = n,
                  avg_exposure = avg_exp, total_ead = total, avg_pd = pd, avg_lgd = lgd,
                  correlation = corr, ecl_12m = None, ecl_lifetime = None, rwa = None\<rparr>])"

text \<open>
  \<open>calculate_ecl\<close> stores the two columns and returns the table restricted to
  \<open>segment\<close>, \<open>ecl_12m\<close>, \<open>ecl_lifetime\<close>: the result is the new state and that view.
\<close>

definition ecl_row :: "segment_row \<Rightarrow> segment_row" where
  "ecl_row r =
     (let e = avg_pd r * avg_lgd r * total_ead r
      in r\<lparr>ecl_12m := Some e, ecl_lifetime := Some (e * 5)\<rparr>)"

definition calculate_ecl ::
  "exposures \<Rightarrow> error + exposures \<times> (string \<times> real option \<times> real option) list" where
  "calculate_ecl self =
     (if self = [] then Inl (KeyError ''avg_pd'')
      else let new = map ecl_row self
           in Inr (new, map (\<lambda>r. (segment r, ecl_12m r, ecl_lifetime r)) new))"

text \<open>
  \<open>calculate_rwa\<close> on a portfolio without segments: the loop runs over no rows, and the
  final selection of the columns \<open>segment\<close> and \<open>total_ead\<close>, which the empty table does not
  have, raises \<open>KeyError\<close>.
\<close>

definition calculate_rwa ::
  "exposures \<Rightarrow> error + exposures \<times> (string \<times> real \<times> real option) list" where
  "calculate_rwa self =
     (if self = [] then Inl (KeyError ''segment'')
      else let new = map (\<lambda>r. r\<lparr>rwa := Some (calculate_rwa_simple (total_ead r) (avg_pd r)
                                                  (avg_lgd r) (correlation r))\<rparr>) self
           in Inr (new, map (\<lambda>r. (segment r, total_ead r, rwa r)) new))"

record stressed_row =
  base_row :: segment_row
  avg_pd_stressed :: real
  avg_lgd_stressed :: real
  total_ead_stressed :: real
  ecl_stressed :: real
  rwa_stressed :: real

definition stress_row :: "real \<Rightarrow> real \<Rightarrow> real \<Rightarrow> segment_row \<Rightarrow> stressed_row" where
  "stress_row pd_shock lgd_shock ead_shock r =
     (let pd_s = avg_pd r * pd_shock;
          lgd_s = min (avg_lgd r * lgd_shock) 1;
          ead_s = total_ead r * ead_shock
      in \<lparr>base_row = r, avg_pd_stressed = pd_s, avg_lgd_stressed = lgd_s,
          total_ead_stressed = ead_s, ecl_stressed = pd_s * lgd_s * ead_s,
          rwa_stressed = calculate_rwa_simple ead_s pd_s lgd_s (correlation r)\<rparr>)"

definition stress_portfolio :: "exposures \<Rightarrow> real \<Rightarrow> real \<Rightarrow> real \<Rightarrow> error + stressed_row list" where
  "stress_portfolio self pd_shock lgd_shock ead_shock =
     (if self = [] then Inl (KeyError ''avg_pd'')
      else Inr (map (stress_row pd_shock lgd_shock ead_shock) self))"

section \<open>Stress scenarios (stress/scenarios.py)\<close>

text \<open>\<open>np.linspace(start, stop, num)\<close> with the end point included.\<close>

definition linspace :: "real \<Rightarrow> real \<Rightarrow> nat \<Rightarrow> real list" where
  "linspace start stop num =
     (if num = 0 then []
      else if num = 1 then [start]
      else map (\<lambda>i. start + real i * ((stop - start) / real (num - 1))) [0..<num])"

text \<open>A ramp over at most \<open>periods\<close> rows followed by the plateau, \<open>n\<close> values in all.\<close>

definition ramp_path :: "real \<Rightarrow> nat \<Rightarrow> nat \<Rightarrow> real list" where
  "ramp_path shock periods n =
     (let path = linspace 0 shock (min periods n)
      in path @ replicate (n - length path) shock)"

datatype shock = Additive real | ShockDict "(string \<times> real) list"

definition apply_shock :: "dataframe \<Rightarrow> string \<times> shock \<Rightarrow> dataframe" where
  "apply_shock df vs =
     (case vs of (var, sh) \<Rightarrow>
        (case sh of
           ShockDict d \<Rightarrow>
             (case map_of d ''instant'' of
                Some v \<Rightarrow> modify_column df var (map (\<lambda>x. x + v))
              | None \<Rightarrow>
                  (case map_of d ''growth'' of
                     Some g \<Rightarrow> modify_column df var (map (\<lambda>x. x * (1 + g)))
                   | None \<Rightarrow> df))
         | Additive v \<Rightarrow> modify_column df var (map (\<lambda>x. x + v))))"

definition StressScenario_apply :: "(string \<times> shock) list \<Rightarrow> dataframe \<Rightarrow> dataframe" where
  "StressScenario_apply shocks df_base = foldl apply_shock df_base shocks"

definition CustomScenario_apply :: "(string \<times> real) list \<Rightarrow> dataframe \<Rightarrow> dataframe" where
  "CustomScenario_apply custom_shocks df_base =
     foldl (\<lambda>df (var, v). modify_column df var (map (\<lambda>x. x + v))) df_base custom_shocks"

definition TighteningScenario_apply :: "real \<Rightarrow> real \<Rightarrow> real \<Rightarrow> dataframe \<Rightarrow> dataframe" where
  "TighteningScenario_apply rate_shock unemployment_shock housing_shock df_base =
     (let df = modify_column df_base ''cash_rate'' (map (\<lambda>x. x + rate_shock));
          df = modify_column df ''fed_funds_rate'' (map (\<lambda>x. x + rate_shock));
          n = nrows df;
          unemployment_path = ramp_path unemployment_shock 12 n;
          df = modify_column df ''unemployment_rate'' (\<lambda>xs. map2 (+) xs unemployment_path);
          df = (if has_column df ''housing_price_index'' \<or> has_column df ''housing_price_growth''
                then let housing_path = ramp_path housing_shock 24 n
                     in modify_column df ''housing_price_growth'' (\<lambda>xs. map2 (+) xs housing_path)
                else df);
          df = modify_column df ''credit_growth_housing'' (map (\<lambda>x. x * (1 / 2)));
          df = modify_column df ''credit_growth'' (map (\<lambda>x. x * (1 / 2)));
          df = modify_column df ''bbsw_spread'' (map (\<lambda>x. x + 1 / 2));
          df = modify_column df ''baa_spread'' (map (\<lambda>x. x + 1 / 2))
      in df)"

definition SevereRecessionScenario_apply :: "dataframe \<Rightarrow> dataframe" where
  "SevereRecessionScenario_apply df_base =
     (let n = nrows df_base;
          unemployment_path = ramp_path 5 12 n;
          df = modify_column df_base ''unemployment_rate''
                 (\<lambda>xs. map (\<lambda>x. min x 12) (map2 (+) xs unemployment_path));
          housing_path = ramp_path (- 25) 18 n;
          df = modify_column df ''housing_price_growth'' (\<lambda>xs. housing_path);
          df = modify_column df ''cash_rate'' (map (\<lambda>x. max (x - 3) (1 / 10)));
          df = modify_column df ''fed_funds_rate'' (map (\<lambda>x. max (x - 4) (1 / 10)));
          df = modify_column df ''credit_growth_housing'' (map (\<lambda>x. x - 20));
          df = modify_column df ''credit_growth'' (map (\<lambda>x. x - 20));
          df = modify_column df ''bbsw_spread'' (map (\<lambda>x. x + 2));
          df = modify_column df ''baa_spread'' (map (\<lambda>x. x + 3))
      in df)"

text \<open>
  \<open>apply_scenario_to_portfolio\<close>: the scenario is any object with an \<open>apply\<close> method, here the
  function it computes. The branches follow the source: the last row of the stressed table,
  then, only if the field is in that row, the last row of the baseline table.
\<close>

definition pd_multiplier_of ::
  "(string \<times> real) list \<Rightarrow> dataframe \<Rightarrow> error + real" where
  "pd_multiplier_of latest df_macro =
     (case map_of latest ''unemployment_rate'' of
        None \<Rightarrow> Inr 1
      | Some u \<Rightarrow>
          (case iloc_last df_macro of
             Inl e \<Rightarrow> Inl e
           | Inr base \<Rightarrow>
               (case map_of base ''unemployment_rate'' of
                  None \<Rightarrow> Inl (KeyError ''unemployment_rate'')
                | Some u0 \<Rightarrow>
                    (let unemployment_impact = (u - u0) / 2
                     in Inr (1 + unemployment_impact * (3 / 10))))))"

definition lgd_multiplier_of ::
  "(string \<times> real) list \<Rightarrow> dataframe \<Rightarrow> error + real" where
  "lgd_multiplier_of latest df_macro =
     (case map_of latest ''housing_price_growth'' of
        None \<Rightarrow> Inr 1
      | Some h \<Rightarrow>
          (case iloc_last df_macro of Inl e \<Rightarrow> Inl e | Inr base \<Rightarrow>
             let h0 = (case map_of base ''housing_price_growth'' of None \<Rightarrow> 0 | Some v \<Rightarrow> v);
                 housing_impact = (h - h0) / 10;
                 lgd_multiplier = 1 - housing_impact * (1 / 10)
             in Inr (clip lgd_multiplier (8 / 10) (15 / 10))))"

definition apply_scenario_to_portfolio ::
  "exposures \<Rightarrow> (dataframe \<Rightarrow> error + dataframe) \<Rightarrow> dataframe
     \<Rightarrow> error + stressed_row list \<times> dataframe" where
  "apply_scenario_to_portfolio portfolio scenario df_macro =
     (case scenario df_macro of Inl e \<Rightarrow> Inl e | Inr df_stressed \<Rightarrow>
     (case iloc_last df_stressed of Inl e \<Rightarrow> Inl e | Inr latest \<Rightarrow>
     (case pd_multiplier_of latest df_macro of Inl e \<Rightarrow> Inl e | Inr pd_multiplier \<Rightarrow>
     (case lgd_multiplier_of latest df_macro of Inl e \<Rightarrow> Inl e | Inr lgd_multiplier \<Rightarrow>
        (let ead_multiplier = 105 / 100
         in (case stress_portfolio portfolio pd_multiplier lgd_multiplier ead_multiplier of
               Inl e \<Rightarrow> Inl e
             | Inr stressed_results \<Rightarrow> Inr (stressed_results, df_stressed)))))))"

text \<open>The two sensitivities as the specification states them.\<close>

definition spec_pd_multiplier :: "real \<Rightarrow> real" where
  "spec_pd_multiplier delta_unemployment = 1 + (delta_unemployment / 2) * (3 / 10)"

definition spec_lgd_multiplier :: "real \<Rightarrow> real" where
  "spec_lgd_multiplier delta_housing = clip (1 - (delta_housing / 10) * (1 / 10)) (8 / 10) (15 / 10)"

text \<open>The domain of a segment as the data model states it.\<close>

definition segment_in_domain :: "segment_row \<Rightarrow> bool" where
  "segment_in_domain r \<longleftrightarrow> 0 \<le> avg_pd r \<and> 0 \<le> avg_lgd r \<and> avg_lgd r \<le> 1 \<and> 0 \<le> total_ead r"

section \<open>Example inputs\<close>

definition table_without_gdp :: dataframe where
  "table_without_gdp = \<lparr>nrows = 2, columns =
     [(''cash_rate'', [1, 2]), (''credit_growth_housing'', [3, 4]), (''unemployment_rate'', [5, 6])]\<rparr>"

definition table_constant_rate :: dataframe where
  "table_constant_rate = \<lparr>nrows = 3, columns =
     [(''cash_rate'', [2, 2, 2]), (''credit_growth_housing'', [1, 2, 3]),
      (''unemployment_rate'', [4, 5, 6]), (''gdp_growth'', [1, 3, 2])]\<rparr>"

definition macro_table :: dataframe where
  "macro_table = \<lparr>nrows = 2, columns =
     [(''cash_rate'', [9 / 2, 9 / 2]), (''unemployment_rate'', [4, 4]),
      (''housing_price_growth'', [5, 5])]\<rparr>"

definition example_portfolio :: exposures where
  "example_portfolio =
     add_segment [] ''Residential Mortgages'' 1000 500000 (1 / 100) (30 / 100) (15 / 100) ''retail''"

section \<open>Exposure at default: no domain check\<close>

text \<open>
  C2 (counterexample). The claim says that a drawn amount above the commitment raises
  \<open>DomainError\<close>. With commitment 1,000,000, drawn 1,200,000 and the default conversion factor
  0.75 the function returns 1,050,000, computed from the undrawn amount -200,000.
\<close>

theorem EADModel_calculate_overdrawn_counterexample:
  "EADModel_calculate \<lparr>ccf = 3 / 4\<rparr> 1200000 1000000 None = Inr 1050000
   \<and> EADModel_calculate \<lparr>ccf = 3 / 4\<rparr> 1200000 1000000 None \<noteq> Inl DomainError"
  by (simp add: EADModel_calculate_def)

text \<open>
  C2 (amended). \<open>EADModel.calculate\<close> checks nothing and never raises: for all amounts, also
  with drawn above commitment, it returns drawn + factor * (commitment - drawn), the factor
  being the usage rate when one is given and the conversion factor otherwise.
\<close>

theorem EADModel_calculate_never_raises:
  "EADModel_calculate self drawn commitment usage_rate =
     Inr (drawn + (case usage_rate of Some u \<Rightarrow> u | None \<Rightarrow> ccf self) * (commitment - drawn))"
  by (simp add: EADModel_calculate_def split: option.splits)

section \<open>Credit Availability Index: missing and constant columns\<close>

lemma has_column_map_of: "has_column df c \<longleftrightarrow> map_of (columns df) c \<noteq> None"
  by (simp add: has_column_def map_of_eq_None_iff)

lemma getitem_absent: "\<not> has_column df c \<Longrightarrow> getitem df c = Inl (KeyError c)"
  by (simp add: getitem_def has_column_map_of)

lemma getitem_present: "has_column df c \<Longrightarrow> \<exists>xs. getitem df c = Inr xs"
  unfolding getitem_def has_column_map_of
  by (cases "map_of (columns df) c") auto

text \<open>
  C3 (counterexample). The claim says that a missing required column fails with
  \<open>MissingFieldError\<close>, an error distinct from a generic lookup failure. On a table without
  \<open>gdp_growth\<close> the function fails with the table's own \<open>KeyError\<close>.
\<close>

theorem CAI_missing_column_counterexample:
  "CreditAvailabilityIndex_calculate default_weights table_without_gdp
      ''cash_rate'' ''credit_growth_housing'' ''unemployment_rate'' ''gdp_growth''
     = Inl (KeyError ''gdp_growth'')
   \<and> CreditAvailabilityIndex_calculate default_weights table_without_gdp
      ''cash_rate'' ''credit_growth_housing'' ''unemployment_rate'' ''gdp_growth''
     \<noteq> Inl MissingFieldError"
  by (simp add: CreditAvailabilityIndex_calculate_def table_without_gdp_def getitem_def)

text \<open>
  C3 (amended). For every table that lacks one of the four columns the index is computed
  from, \<open>CreditAvailabilityIndex.calculate\<close> returns no value: it fails with \<open>KeyError\<close>, the
  generic lookup failure of the table, naming a missing column. Nothing is defaulted.
\<close>

theorem CAI_missing_column_KeyError:
  assumes "\<not> (has_column df rate_col \<and> has_column df credit_col \<and> has_column df unemp_col
              \<and> has_column df gdp_col)"
  shows "\<exists>c \<in> {rate_col, credit_col, unemp_col, gdp_col}. \<not> has_column df c \<and>
           CreditAvailabilityIndex_calculate weights df rate_col credit_col unemp_col gdp_col
             = Inl (KeyError c)"
proof (cases "has_column df rate_col")
  case False
  then show ?thesis
    by (simp add: CreditAvailabilityIndex_calculate_def getitem_absent)
next
  case r: True
  then obtain rate where rate: "getitem df rate_col = Inr rate"
    using getitem_present by blast
  show ?thesis
  proof (cases "has_column df credit_col")
    case False
    then show ?thesis
      by (simp add: CreditAvailabilityIndex_calculate_def getitem_absent rate)
  next
    case c: True
    then obtain credit where credit: "getitem df credit_col = Inr credit"
      using getitem_present by blast
    show ?thesis
    proof (cases "has_column df unemp_col")
      case False
      then show ?thesis
        by (simp add: CreditAvailabilityIndex_calculate_def getitem_absent rate credit)
    next
      case u: True
      then obtain unemp where unemp: "getitem df unemp_col = Inr unemp"
        using getitem_present by blast
      from assms r c u have "\<not> has_column df gdp_col" by simp
      then show ?thesis
        by (simp add: CreditAvailabilityIndex_calculate_def getitem_absent rate credit unemp)
    qed
  qed
qed

text \<open>C3 (witness): the table without \<open>gdp_growth\<close>, read with the default column names.\<close>

theorem CAI_missing_column_KeyError_witness:
  "\<exists>c \<in> {''cash_rate'', ''credit_growth_housing'', ''unemployment_rate'', ''gdp_growth''}.
     \<not> has_column table_without_gdp c \<and>
     CreditAvailabilityIndex_calculate default_weights table_without_gdp
       ''cash_rate'' ''credit_growth_housing'' ''unemployment_rate'' ''gdp_growth''
       = Inl (KeyError c)"
  by (rule CAI_missing_column_KeyError) (simp add: has_column_def table_without_gdp_def)

lemma fadd_NaN_right: "fadd a NaN = NaN"
  by (cases a) (simp_all add: fadd_def)

lemma fadd_NaN_left: "fadd NaN b = NaN"
  by (simp add: fadd_def)

lemma fmul_NaN_right: "fmul a NaN = NaN"
  by (cases a) (simp_all add: fmul_def)

lemma fclip_NaN: "fclip NaN lo hi = NaN"
  by (simp add: fclip_def)

text \<open>
  A constant column has deviation zero (or none at all, on a single row), and every
  z-score of it is 0/0.
\<close>

lemma zscore_constant: "zscore (replicate n v) = replicate n NaN"
proof -
  have "fdiv (fsub (Fin v) (series_mean (replicate n v))) (series_std (replicate n v)) = NaN"
    if "0 < n"
  proof (cases "n = 1")
    case True
    then show ?thesis
      by (cases "fsub (Fin v) (series_mean (replicate n v))")
         (simp_all add: series_std_def fdiv_def)
  next
    case False
    with that have n: "2 \<le> n" by simp
    then have mean: "sum_list (replicate n v) / real n = v"
      by (simp add: sum_list_replicate)
    have dev: "map (\<lambda>x. (x - v)\<^sup>2) (replicate n v) = replicate n 0"
      by simp
    from n have "series_mean (replicate n v) = Fin v"
      by (simp add: series_mean_def mean)
    moreover from n have "series_std (replicate n v) = Fin 0"
      by (simp add: series_std_def mean dev sum_list_replicate del: map_replicate)
    ultimately show ?thesis
      by (simp add: fsub_def fneg_def fadd_def fdiv_def)
  qed
  then show ?thesis
    by (cases "n = 0") (simp_all add: zscore_def)
qed

lemma series_scale_NaN: "series_scale w (replicate n NaN) = replicate n NaN"
  by (simp add: series_scale_def fmul_NaN_right)

lemma length_zscore: "length (zscore xs) = length xs"
  by (simp add: zscore_def)

lemma length_series_scale: "length (series_scale w zs) = length zs"
  by (simp add: series_scale_def)

lemma series_add_NaN_left: "length ys = n \<Longrightarrow> series_add (replicate n NaN) ys = replicate n NaN"
  unfolding series_add_def
  by (induction ys arbitrary: n) (auto simp: fadd_NaN_left)

lemma series_add_NaN_right: "length xs = n \<Longrightarrow> series_add xs (replicate n NaN) = replicate n NaN"
  unfolding series_add_def
  by (induction xs arbitrary: n) (auto simp: fadd_NaN_right)

lemma length_series_add: "length (series_add xs ys) = min (length xs) (length ys)"
  by (simp add: series_add_def)

lemma cai_tail_NaN:
  "map (\<lambda>v. fclip v 0 100) (map (\<lambda>v. fadd (Fin 50) (fmul (Fin 10) v)) (replicate n NaN))
     = replicate n NaN"
  by (simp add: fmul_NaN_right fadd_NaN_right fclip_NaN)

lemma getitem_length:
  assumes wf: "wf_dataframe df" and g: "getitem df c = Inr xs"
  shows "length xs = nrows df"
proof -
  from g have "map_of (columns df) c = Some xs"
    by (simp add: getitem_def split: option.splits)
  then have "(c, xs) \<in> set (columns df)"
    by (rule map_of_SomeD)
  with wf show ?thesis
    by (auto simp: wf_dataframe_def list_all_iff)
qed

text \<open>
  C6 (the code against the claim). The claim says that with a constant column the index is
  still a finite value in 0..100 at every time point, the degenerate z-score being replaced
  by 0. The code has no such fallback: for every well-formed table in which one of the four
  columns is constant, the z-score of that column is 0/0 at every row, and the index returned
  is NaN at every time point; the final clip leaves NaN in place.
\<close>

theorem CAI_constant_column_NaN:
  assumes wf: "wf_dataframe df"
    and rate: "getitem df rate_col = Inr rate"
    and credit: "getitem df credit_col = Inr credit"
    and unemp: "getitem df unemp_col = Inr unemp"
    and gdp: "getitem df gdp_col = Inr gdp"
    and const: "\<exists>v. replicate (nrows df) v \<in> {rate, credit, unemp, gdp}"
  shows "CreditAvailabilityIndex_calculate weights df rate_col credit_col unemp_col gdp_col
           = Inr (replicate (nrows df) NaN)"
proof -
  let ?n = "nrows df"
  have len: "length rate = ?n" "length credit = ?n" "length unemp = ?n" "length gdp = ?n"
    using wf rate credit unemp gdp by (simp_all add: getitem_length)
  let ?a = "series_scale (w_rate weights) (zscore rate)"
  let ?b = "series_scale (w_credit_growth weights) (zscore credit)"
  let ?c = "series_scale (w_unemployment weights) (zscore unemp)"
  let ?d = "series_scale (w_gdp_growth weights) (zscore gdp)"
  have lens: "length ?a = ?n" "length ?b = ?n" "length ?c = ?n" "length ?d = ?n"
    using len by (simp_all add: length_series_scale length_zscore)
  from const obtain v where v: "replicate ?n v \<in> {rate, credit, unemp, gdp}" ..
  then have one: "?a = replicate ?n NaN \<or> ?b = replicate ?n NaN \<or> ?c = replicate ?n NaN
      \<or> ?d = replicate ?n NaN"
    using zscore_constant [of ?n v] series_scale_NaN by auto
  have raw: "series_add (series_add (series_add ?a ?b) ?c) ?d = replicate ?n NaN"
    using one lens
    by (elim disjE)
       (simp_all add: series_add_NaN_left series_add_NaN_right length_series_add)
  show ?thesis
    unfolding CreditAvailabilityIndex_calculate_def
    by (simp add: rate credit unemp gdp Let_def raw cai_tail_NaN del: map_replicate map_map)
qed

text \<open>
  C6 (failing input): three months with the policy rate constant at 2. The index is NaN in
  all three, and NaN is not a finite value in 0..100.
\<close>

theorem CAI_constant_column_NaN_witness:
  "CreditAvailabilityIndex_calculate default_weights table_constant_rate
      ''cash_rate'' ''credit_growth_housing'' ''unemployment_rate'' ''gdp_growth''
    = Inr [NaN, NaN, NaN] \<and> \<not> finite_index NaN"
proof -
  have wf: "wf_dataframe table_constant_rate"
    by (simp add: wf_dataframe_def table_constant_rate_def)
  have cols: "getitem table_constant_rate ''cash_rate'' = Inr [2, 2, 2]"
    "getitem table_constant_rate ''credit_growth_housing'' = Inr [1, 2, 3]"
    "getitem table_constant_rate ''unemployment_rate'' = Inr [4, 5, 6]"
    "getitem table_constant_rate ''gdp_growth'' = Inr [1, 3, 2]"
    by (simp_all add: getitem_def table_constant_rate_def)
  have n: "nrows table_constant_rate = 3"
    by (simp add: table_constant_rate_def)
  have const: "\<exists>v. replicate (nrows table_constant_rate) v
      \<in> {[2, 2, 2], [1, 2, 3], [4, 5, 6], [1, 3, 2::real]}"
    by (rule exI [of _ 2]) (simp add: n numeral_3_eq_3)
  have "replicate (nrows table_constant_rate) NaN = [NaN, NaN, NaN]"
    by (simp add: n numeral_3_eq_3)
  then show ?thesis
    using CAI_constant_column_NaN [OF wf cols const, of default_weights]
    by (simp add: finite_index_def)
qed

section \<open>Portfolio: expected credit loss and stress ordering\<close>

lemma ecl_row_fields:
  "ecl_12m (ecl_row r) = Some (avg_pd r * avg_lgd r * total_ead r)"
  "ecl_lifetime (ecl_row r) = Some (avg_pd r * avg_lgd r * total_ead r * 5)"
  "total_ead (ecl_row r) = total_ead r"
  "avg_pd (ecl_row r) = avg_pd r"
  "avg_lgd (ecl_row r) = avg_lgd r"
  by (simp_all add: ecl_row_def Let_def)

text \<open>
  C5. Once a segment has been added, \<open>calculate_ecl\<close> returns, and in the table it leaves
  every row has \<open>ecl_12m = avg_pd * avg_lgd * total_ead\<close> and \<open>ecl_lifetime = ecl_12m * 5\<close>:
  the rows that were there before, and the row of the added segment, whose \<open>total_ead\<close> is
  \<open>n_loans * avg_exposure\<close> as \<open>add_segment\<close> stored it.
\<close>

theorem calculate_ecl_after_add_segment:
  "\<exists>new view.
     calculate_ecl (add_segment self name n e p l c t) = Inr (new, view) \<and>
     length new = Suc (length self) \<and>
     (\<forall>i < length self.
        ecl_12m (new ! i) = Some (avg_pd (self ! i) * avg_lgd (self ! i) * total_ead (self ! i)) \<and>
        ecl_lifetime (new ! i)
          = Some (avg_pd (self ! i) * avg_lgd (self ! i) * total_ead (self ! i) * 5)) \<and>
     total_ead (new ! length self) = real_of_int n * e \<and>
     ecl_12m (new ! length self) = Some (p * l * (real_of_int n * e)) \<and>
     ecl_lifetime (new ! length self) = Some (p * l * (real_of_int n * e) * 5)"
  by (simp add: calculate_ecl_def add_segment_def Let_def nth_append ecl_row_fields)

text \<open>
  C5 (witness): the single segment of the specification (1000 loans of 500,000, PD 0.01,
  LGD 0.30) has \<open>ecl_12m\<close> 1,500,000; a second segment added to it leaves that row's value
  in place and gets its own.
\<close>

theorem calculate_ecl_after_add_segment_witness:
  "(\<exists>new view. calculate_ecl example_portfolio = Inr (new, view) \<and> length new = 1 \<and>
      total_ead (new ! 0) = 500000000 \<and> ecl_12m (new ! 0) = Some 1500000 \<and>
      ecl_lifetime (new ! 0) = Some 7500000)
   \<and> (\<exists>new view.
        calculate_ecl (add_segment example_portfolio ''Personal Loans'' 20000 25000 (3 / 100)
          (45 / 100) (15 / 100) ''retail'') = Inr (new, view) \<and> length new = 2 \<and>
        ecl_12m (new ! 0) = Some 1500000 \<and> ecl_12m (new ! 1) = Some 6750000)"
proof
  show "\<exists>new view. calculate_ecl example_portfolio = Inr (new, view) \<and> length new = 1 \<and>
      total_ead (new ! 0) = 500000000 \<and> ecl_12m (new ! 0) = Some 1500000 \<and>
      ecl_lifetime (new ! 0) = Some 7500000"
    using calculate_ecl_after_add_segment [of "[]" "''Residential Mortgages''" 1000 500000
        "1 / 100" "30 / 100" "15 / 100" "''retail''"]
    by (auto simp: example_portfolio_def)
  have rows: "length example_portfolio = 1" "avg_pd (example_portfolio ! 0) = 1 / 100"
    "avg_lgd (example_portfolio ! 0) = 30 / 100" "total_ead (example_portfolio ! 0) = 500000000"
    by (simp_all add: example_portfolio_def add_segment_def)
  show "\<exists>new view.
      calculate_ecl (add_segment example_portfolio ''Personal Loans'' 20000 25000 (3 / 100)
        (45 / 100) (15 / 100) ''retail'') = Inr (new, view) \<and> length new = 2 \<and>
      ecl_12m (new ! 0) = Some 1500000 \<and> ecl_12m (new ! 1) = Some 6750000"
    using calculate_ecl_after_add_segment [of example_portfolio "''Personal Loans''" 20000 25000
        "3 / 100" "45 / 100" "15 / 100" "''retail''"]
    by (auto simp: rows)
qed

lemma stress_row_ge:
  assumes "0 \<le> avg_pd r" "0 \<le> avg_lgd r" "avg_lgd r \<le> 1" "0 \<le> total_ead r"
    and "1 \<le> pd_shock" "1 \<le> lgd_shock" "1 \<le> ead_shock"
  shows "avg_pd r * avg_lgd r * total_ead r \<le> ecl_stressed (stress_row pd_shock lgd_shock ead_shock r)"
proof -
  have pd: "avg_pd r \<le> avg_pd r * pd_shock"
    using assms by (simp add: mult_le_cancel_left1)
  have ead: "total_ead r \<le> total_ead r * ead_shock"
    using assms by (simp add: mult_le_cancel_left1)
  have "avg_lgd r \<le> avg_lgd r * lgd_shock"
    using assms by (simp add: mult_le_cancel_left1)
  with assms have lgd: "avg_lgd r \<le> min (avg_lgd r * lgd_shock) 1"
    by simp
  have pd0: "0 \<le> avg_pd r * pd_shock"
    using pd assms(1) by linarith
  have lgd0: "0 \<le> min (avg_lgd r * lgd_shock) 1"
    using lgd assms(2) by linarith
  have two: "avg_pd r * avg_lgd r \<le> (avg_pd r * pd_shock) * min (avg_lgd r * lgd_shock) 1"
    by (rule mult_mono [OF pd lgd pd0 assms(2)])
  have two0: "0 \<le> (avg_pd r * pd_shock) * min (avg_lgd r * lgd_shock) 1"
    by (rule mult_nonneg_nonneg [OF pd0 lgd0])
  have "avg_pd r * avg_lgd r * total_ead r
      \<le> (avg_pd r * pd_shock) * min (avg_lgd r * lgd_shock) 1 * (total_ead r * ead_shock)"
    by (rule mult_mono [OF two ead two0 assms(4)])
  then show ?thesis
    by (simp add: stress_row_def Let_def)
qed

lemma segment_in_domain_ecl_row: "segment_in_domain (ecl_row r) = segment_in_domain r"
  by (simp add: segment_in_domain_def ecl_row_def Let_def)

lemma sum_list_map_mono:
  fixes f g :: "'a \<Rightarrow> real"
  shows "\<forall>x \<in> set xs. f x \<le> g x \<Longrightarrow> sum_list (map f xs) \<le> sum_list (map g xs)"
  by (induction xs) (auto intro: add_mono)

text \<open>
  C9. For a portfolio with at least one segment, every segment having \<open>avg_pd \<ge> 0\<close>,
  \<open>avg_lgd\<close> in 0..1 and \<open>total_ead \<ge> 0\<close>, and three shocks that are each at least 1:
  \<open>calculate_ecl\<close> and \<open>stress_portfolio\<close> both return, every segment's stressed ECL (LGD
  capped at 1) is at least its baseline \<open>ecl_12m\<close>, and so is the total.
\<close>

theorem stress_ordering:
  assumes ne: "self \<noteq> []"
    and dom: "list_all segment_in_domain self"
    and shocks: "1 \<le> pd_shock" "1 \<le> lgd_shock" "1 \<le> ead_shock"
  shows "\<exists>new view stressed.
           calculate_ecl self = Inr (new, view) \<and>
           stress_portfolio new pd_shock lgd_shock ead_shock = Inr stressed \<and>
           length stressed = length new \<and>
           (\<forall>i < length new. \<exists>e. ecl_12m (new ! i) = Some e \<and> e \<le> ecl_stressed (stressed ! i)) \<and>
           sum_list (map (\<lambda>r. the (ecl_12m r)) new) \<le> sum_list (map ecl_stressed stressed)"
proof -
  let ?new = "map ecl_row self"
  let ?st = "map (stress_row pd_shock lgd_shock ead_shock) ?new"
  have row: "the (ecl_12m (ecl_row r)) \<le> ecl_stressed (stress_row pd_shock lgd_shock ead_shock (ecl_row r))"
    if "r \<in> set self" for r
  proof -
    from dom that have "segment_in_domain (ecl_row r)"
      by (simp add: list_all_iff segment_in_domain_ecl_row)
    then show ?thesis
      using stress_row_ge [of "ecl_row r" pd_shock lgd_shock ead_shock] shocks
      by (simp add: segment_in_domain_def ecl_row_fields)
  qed
  have c: "calculate_ecl self = Inr (?new, map (\<lambda>r. (segment r, ecl_12m r, ecl_lifetime r)) ?new)"
    using ne by (simp add: calculate_ecl_def Let_def)
  have s: "stress_portfolio ?new pd_shock lgd_shock ead_shock = Inr ?st"
    using ne by (simp add: stress_portfolio_def)
  have rows: "\<forall>i < length ?new. \<exists>e. ecl_12m (?new ! i) = Some e \<and> e \<le> ecl_stressed (?st ! i)"
    using row by (auto simp: ecl_row_fields)
  have total: "sum_list (map (\<lambda>r. the (ecl_12m r)) ?new) \<le> sum_list (map ecl_stressed ?st)"
    using row by (simp add: comp_def sum_list_map_mono)
  show ?thesis
  proof (intro exI conjI)
    show "calculate_ecl self = Inr (?new, map (\<lambda>r. (segment r, ecl_12m r, ecl_lifetime r)) ?new)"
      by (rule c)
    show "stress_portfolio ?new pd_shock lgd_shock ead_shock = Inr ?st"
      by (rule s)
    show "length ?st = length ?new"
      by simp
    show "\<forall>i < length ?new. \<exists>e. ecl_12m (?new ! i) = Some e \<and> e \<le> ecl_stressed (?st ! i)"
      by (rule rows)
    show "sum_list (map (\<lambda>r. the (ecl_12m r)) ?new) \<le> sum_list (map ecl_stressed ?st)"
      by (rule total)
  qed
qed

text \<open>
  C9 (witness): the example segment under the shocks 1.5, 1.2 and 1.1 that the module's own
  stress test uses.
\<close>

theorem stress_ordering_witness:
  "example_portfolio \<noteq> [] \<and> list_all segment_in_domain example_portfolio \<and>
   (\<exists>new view stressed.
      calculate_ecl example_portfolio = Inr (new, view) \<and>
      stress_portfolio new (3 / 2) (6 / 5) (11 / 10) = Inr stressed \<and>
      length stressed = length new \<and>
      (\<forall>i < length new. \<exists>e. ecl_12m (new ! i) = Some e \<and> e \<le> ecl_stressed (stressed ! i)) \<and>
      sum_list (map (\<lambda>r. the (ecl_12m r)) new) \<le> sum_list (map ecl_stressed stressed))"
proof -
  have ne: "example_portfolio \<noteq> []"
    by (simp add: example_portfolio_def add_segment_def)
  have dom: "list_all segment_in_domain example_portfolio"
    by (simp add: example_portfolio_def add_segment_def segment_in_domain_def)
  have "\<exists>new view stressed.
      calculate_ecl example_portfolio = Inr (new, view) \<and>
      stress_portfolio new (3 / 2) (6 / 5) (11 / 10) = Inr stressed \<and>
      length stressed = length new \<and>
      (\<forall>i < length new. \<exists>e. ecl_12m (new ! i) = Some e \<and> e \<le> ecl_stressed (stressed ! i)) \<and>
      sum_list (map (\<lambda>r. the (ecl_12m r)) new) \<le> sum_list (map ecl_stressed stressed)"
    by (rule stress_ordering [OF ne dom]) simp_all
  with ne dom show ?thesis
    by (intro conjI)
qed

section \<open>Scenarios\<close>

lemma modify_column_absent: "\<not> has_column df c \<Longrightarrow> modify_column df c f = df"
  by (simp add: modify_column_def has_column_map_of)

lemma map_of_modify_column:
  "map_of (columns (modify_column df c f)) k =
     (if k = c then map_option f (map_of (columns df) c) else map_of (columns df) k)"
  by (simp add: modify_column_def setitem_def update_conv' split: option.splits)

lemma nrows_modify_column: "nrows (modify_column df c f) = nrows df"
  by (simp add: modify_column_def setitem_def split: option.splits)

lemma has_column_setitem: "has_column (setitem df c xs) c"
  by (simp add: has_column_map_of setitem_def update_conv')

lemma apply_shock_absent: "\<not> has_column df (fst vs) \<Longrightarrow> apply_shock df vs = df"
  by (cases vs) (simp add: apply_shock_def modify_column_absent split: shock.splits option.splits)

lemma StressScenario_absent:
  "\<forall>v \<in> fst ` set shocks. \<not> has_column df v \<Longrightarrow> StressScenario_apply shocks df = df"
  unfolding StressScenario_apply_def
  by (induction shocks) (simp_all add: apply_shock_absent)

lemma CustomScenario_absent:
  "\<forall>v \<in> fst ` set shocks. \<not> has_column df v \<Longrightarrow> CustomScenario_apply shocks df = df"
  unfolding CustomScenario_apply_def
  by (induction shocks) (auto simp: modify_column_absent)

text \<open>
  C7. A custom scenario whose shock mapping is empty, or whose shocks all name fields that
  the series does not have, returns the series unchanged; the same holds for the shocks of
  the base class. The functions have no failing branch.
\<close>

theorem absent_field_shocks_are_noops:
  assumes "\<forall>v \<in> fst ` set custom_shocks. \<not> has_column df v"
    and "\<forall>v \<in> fst ` set shocks. \<not> has_column df v"
  shows "CustomScenario_apply [] df = df \<and> CustomScenario_apply custom_shocks df = df
      \<and> StressScenario_apply [] df = df \<and> StressScenario_apply shocks df = df"
proof (intro conjI)
  show "CustomScenario_apply [] df = df"
    by (simp add: CustomScenario_apply_def)
  show "CustomScenario_apply custom_shocks df = df"
    using assms(1) by (rule CustomScenario_absent)
  show "StressScenario_apply [] df = df"
    by (simp add: StressScenario_apply_def)
  show "StressScenario_apply shocks df = df"
    using assms(2) by (rule StressScenario_absent)
qed

text \<open>C7 (witness): shocks to \<open>gdp_growth\<close> and \<open>bbsw_spread\<close> on a table that has neither.\<close>

theorem absent_field_shocks_are_noops_witness:
  "CustomScenario_apply [] macro_table = macro_table
   \<and> CustomScenario_apply [(''gdp_growth'', 3 / 2)] macro_table = macro_table
   \<and> StressScenario_apply [] macro_table = macro_table
   \<and> StressScenario_apply [(''gdp_growth'', Additive 1), (''bbsw_spread'', ShockDict [(''instant'', 2)])]
        macro_table = macro_table"
  by (rule absent_field_shocks_are_noops) (simp_all add: has_column_def macro_table_def)

lemma length_linspace: "length (linspace a b k) = k"
  by (simp add: linspace_def)

lemma length_ramp_path: "length (ramp_path s p n) = n"
  by (simp add: ramp_path_def Let_def length_linspace)

lemma nth_linspace:
  "i < k \<Longrightarrow> linspace a b k ! i = (if k = 1 then a else a + real i * ((b - a) / real (k - 1)))"
  by (auto simp: linspace_def)

lemma nth_ramp_path:
  assumes "i < n"
  shows "ramp_path s p n ! i =
     (if i < min p n then (if min p n = 1 then 0 else real i * (s / real (min p n - 1))) else s)"
  using assms
  by (simp add: ramp_path_def Let_def nth_append length_linspace nth_linspace)

lemma severe_housing:
  "has_column df ''housing_price_growth'' \<Longrightarrow>
   getitem (SevereRecessionScenario_apply df) ''housing_price_growth''
     = Inr (ramp_path (- 25) 18 (nrows df))"
  by (auto simp: SevereRecessionScenario_apply_def Let_def getitem_def map_of_modify_column
        has_column_map_of)

lemma tightening_housing:
  "getitem df ''housing_price_growth'' = Inr xs \<Longrightarrow>
   getitem (TighteningScenario_apply rate_shock unemployment_shock housing_shock df)
       ''housing_price_growth''
     = Inr (map2 (+) xs (ramp_path housing_shock 24 (nrows df)))"
  by (auto simp: TighteningScenario_apply_def Let_def getitem_def map_of_modify_column
        has_column_map_of nrows_modify_column split: option.splits)

text \<open>
  C10. For a series of \<open>n\<close> rows with a \<open>housing_price_growth\<close> column, the severe recession
  scenario replaces that column by the fixed path: \<open>min 18 n\<close> values rising linearly from 0
  to -25 (a single 0 when \<open>n = 1\<close>), then -25. The baseline values do not enter: replacing the
  baseline column by any other gives the same stressed column. The tightening scenario, by
  contrast, adds its path to the baseline column.
\<close>

theorem severe_recession_housing_path:
  assumes "getitem df ''housing_price_growth'' = Inr xs"
  shows "getitem (SevereRecessionScenario_apply df) ''housing_price_growth''
           = Inr (ramp_path (- 25) 18 (nrows df))
       \<and> (\<forall>ys. getitem (SevereRecessionScenario_apply (setitem df ''housing_price_growth'' ys))
                   ''housing_price_growth''
                 = getitem (SevereRecessionScenario_apply df) ''housing_price_growth'')
       \<and> length (ramp_path (- 25) 18 (nrows df)) = nrows df
       \<and> (\<forall>i < nrows df. ramp_path (- 25) 18 (nrows df) ! i =
             (if i < min 18 (nrows df)
              then (if min 18 (nrows df) = 1 then 0
                    else real i * (- 25 / real (min 18 (nrows df) - 1)))
              else - 25))
       \<and> getitem (TighteningScenario_apply rate_shock unemployment_shock housing_shock df)
             ''housing_price_growth''
           = Inr (map2 (+) xs (ramp_path housing_shock 24 (nrows df)))"
proof -
  from assms have h: "has_column df ''housing_price_growth''"
    by (simp add: getitem_def has_column_map_of split: option.splits)
  have n: "nrows (setitem df ''housing_price_growth'' ys) = nrows df" for ys
    by (simp add: setitem_def)
  show ?thesis
    using h assms
    by (simp add: severe_housing has_column_setitem n length_ramp_path nth_ramp_path
          tightening_housing)
qed

text \<open>
  C10 (witness): two months with housing growth 5 and 5. The stressed column is 0, -25,
  also when the baseline column is replaced by 1, 2; tightening gives 5 + 0 and 5 - 10.
\<close>

theorem severe_recession_housing_path_witness:
  "getitem macro_table ''housing_price_growth'' = Inr [5, 5]
   \<and> getitem (SevereRecessionScenario_apply macro_table) ''housing_price_growth'' = Inr [0, - 25]
   \<and> getitem (SevereRecessionScenario_apply (setitem macro_table ''housing_price_growth'' [1, 2]))
        ''housing_price_growth'' = Inr [0, - 25]
   \<and> getitem (TighteningScenario_apply 2 2 (- 10) macro_table) ''housing_price_growth''
        = Inr [5, - 5]"
proof -
  have g: "getitem macro_table ''housing_price_growth'' = Inr [5, 5]"
    by (simp add: getitem_def macro_table_def)
  have n: "nrows macro_table = 2"
    by (simp add: macro_table_def)
  have r: "ramp_path (- 25) 18 2 = [0, - 25]" "ramp_path (- 10) 24 2 = [0, - 10]"
    by (simp_all add: ramp_path_def linspace_def Let_def upt_rec)
  show ?thesis
    using severe_recession_housing_path [OF g, of 2 2 "- 10"] g
    by (simp add: n r)
qed

text \<open>
  C8. When the scenario returns a stressed series, and both series have a last row,
  \<open>apply_scenario_to_portfolio\<close> is \<open>stress_portfolio\<close> called with exactly these shocks: for PD
  1 + (change in unemployment / 2) * 0.3, for LGD 1 - (change in housing growth / 10) * 0.1
  clipped to 0.8..1.5, for EAD 1.05; the changes are those of the last row against the
  baseline's last row (a baseline without housing growth counting as 0), and the PD and LGD
  shocks are 1 when the stressed row lacks the field. The stressed series is returned with the
  result.
\<close>

theorem apply_scenario_to_portfolio_multipliers:
  assumes "scenario df_macro = Inr df_stressed"
    and "iloc_last df_stressed = Inr latest"
    and "iloc_last df_macro = Inr base"
    and "map_of latest ''unemployment_rate'' \<noteq> None \<longrightarrow> map_of base ''unemployment_rate'' \<noteq> None"
  shows "apply_scenario_to_portfolio portfolio scenario df_macro =
     (case stress_portfolio portfolio
        (case map_of latest ''unemployment_rate'' of
           None \<Rightarrow> 1
         | Some u \<Rightarrow> spec_pd_multiplier (u - the (map_of base ''unemployment_rate'')))
        (case map_of latest ''housing_price_growth'' of
           None \<Rightarrow> 1
         | Some h \<Rightarrow> spec_lgd_multiplier
             (h - (case map_of base ''housing_price_growth'' of None \<Rightarrow> 0 | Some h0 \<Rightarrow> h0)))
        (105 / 100) of
        Inl e \<Rightarrow> Inl e
      | Inr stressed_results \<Rightarrow> Inr (stressed_results, df_stressed))"
proof -
  have pd: "pd_multiplier_of latest df_macro =
      Inr (case map_of latest ''unemployment_rate'' of
           None \<Rightarrow> 1
         | Some u \<Rightarrow> spec_pd_multiplier (u - the (map_of base ''unemployment_rate'')))"
    using assms(3,4)
    by (auto simp: pd_multiplier_of_def spec_pd_multiplier_def Let_def split: option.splits)
  have lgd: "lgd_multiplier_of latest df_macro =
      Inr (case map_of latest ''housing_price_growth'' of
           None \<Rightarrow> 1
         | Some h \<Rightarrow> spec_lgd_multiplier
             (h - (case map_of base ''housing_price_growth'' of None \<Rightarrow> 0 | Some h0 \<Rightarrow> h0)))"
    using assms(3)
    by (auto simp: lgd_multiplier_of_def spec_lgd_multiplier_def Let_def split: option.splits)
  show ?thesis
    unfolding apply_scenario_to_portfolio_def
    by (simp add: assms(1,2) pd lgd Let_def)
qed

text \<open>
  C8 (witness): the tightening scenario on two months. Unemployment ends at 6 against 4 and
  housing growth at -5 against 5, so the shocks are 1.3, 1.1 and 1.05.
\<close>

theorem apply_scenario_to_portfolio_multipliers_witness:
  "apply_scenario_to_portfolio example_portfolio
      (\<lambda>df. Inr (TighteningScenario_apply 2 2 (- 10) df)) macro_table
   = (case stress_portfolio example_portfolio (13 / 10) (11 / 10) (105 / 100) of
        Inl e \<Rightarrow> Inl e
      | Inr stressed_results \<Rightarrow>
          Inr (stressed_results, TighteningScenario_apply 2 2 (- 10) macro_table))"
proof -
  let ?sc = "\<lambda>df. Inr (TighteningScenario_apply 2 2 (- 10) df) :: error + dataframe"
  have latest: "iloc_last (TighteningScenario_apply 2 2 (- 10) macro_table) =
      Inr [(''cash_rate'', 13 / 2), (''unemployment_rate'', 6), (''housing_price_growth'', - 5)]"
    by code_simp
  have base: "iloc_last macro_table =
      Inr [(''cash_rate'', 9 / 2), (''unemployment_rate'', 4), (''housing_price_growth'', 5)]"
    by code_simp
  have pd: "spec_pd_multiplier 2 = 13 / 10"
    by (simp add: spec_pd_multiplier_def)
  have lgd: "spec_lgd_multiplier (- 10) = 11 / 10"
    by (simp add: spec_lgd_multiplier_def clip_def)
  show ?thesis
    using apply_scenario_to_portfolio_multipliers [of ?sc macro_table, OF refl latest base,
        of example_portfolio]
    by (simp add: pd lgd)
qed

section \<open>The standard normal distribution function\<close>

text \<open>
  The series converges everywhere, and differentiating it term by term gives the density:
  the function \<open>gauss_integral\<close> has derivative \<open>exp (- x^2 / 2)\<close>. Hence the distribution
  function is continuous and strictly increasing, with value 1/2 at 0.
\<close>

lemma gauss_coeff_abs: "\<bar>gauss_coeff n * y ^ n\<bar> \<le> inverse (fact n) * (\<bar>y\<bar> / 2) ^ n"
proof -
  have "\<bar>gauss_coeff n * y ^ n\<bar> = (\<bar>y\<bar> / 2) ^ n / (fact n * real (2 * n + 1))"
    by (simp add: gauss_coeff_def abs_mult power_abs power_divide abs_divide)
  also have "\<dots> \<le> (\<bar>y\<bar> / 2) ^ n / fact n"
    by (intro divide_left_mono) (simp_all add: mult_le_cancel_left1)
  finally show ?thesis
    by (simp add: field_simps)
qed

lemma summable_gauss: "summable (\<lambda>n. gauss_coeff n * y ^ n)"
proof (rule summable_comparison_test')
  show "summable (\<lambda>n. inverse (fact n) * (\<bar>y\<bar> / 2) ^ n)"
    by (rule summable_exp)
  show "norm (gauss_coeff n * y ^ n) \<le> inverse (fact n) * (\<bar>y\<bar> / 2) ^ n" if "0 \<le> n" for n
    using gauss_coeff_abs [of n y] by simp
qed

lemma DERIV_gauss_series:
  "DERIV gauss_series y :> (\<Sum>n. diffs gauss_coeff n * y ^ n)"
  unfolding gauss_series_def
  by (rule termdiffs_strong_converges_everywhere) (rule summable_gauss)

lemma gauss_series_ode: "gauss_series y + 2 * y * (\<Sum>n. diffs gauss_coeff n * y ^ n) = exp (- y / 2)"
proof -
  have s1: "(\<lambda>n. gauss_coeff n * y ^ n) sums gauss_series y"
    unfolding gauss_series_def using summable_gauss by (rule summable_sums)
  have "summable (\<lambda>n. diffs gauss_coeff n * y ^ n)"
    by (rule termdiff_converges_all) (rule summable_gauss)
  then have "(\<lambda>n. diffs gauss_coeff n * y ^ n) sums (\<Sum>n. diffs gauss_coeff n * y ^ n)"
    by (rule summable_sums)
  then have "(\<lambda>n. 2 * y * (diffs gauss_coeff n * y ^ n)) sums (2 * y * (\<Sum>n. diffs gauss_coeff n * y ^ n))"
    by (rule sums_mult)
  moreover have "2 * y * (diffs gauss_coeff n * y ^ n) = 2 * real (Suc n) * gauss_coeff (Suc n) * y ^ Suc n" for n
    by (simp add: diffs_def)
  ultimately have "(\<lambda>n. 2 * real (Suc n) * gauss_coeff (Suc n) * y ^ Suc n)
      sums (2 * y * (\<Sum>n. diffs gauss_coeff n * y ^ n))"
    by simp
  then have s2: "(\<lambda>n. 2 * real n * gauss_coeff n * y ^ n) sums (2 * y * (\<Sum>n. diffs gauss_coeff n * y ^ n))"
    using sums_Suc_iff [of "\<lambda>n. 2 * real n * gauss_coeff n * y ^ n"] by simp
  have "(\<lambda>n. gauss_coeff n * y ^ n + 2 * real n * gauss_coeff n * y ^ n)
      sums (gauss_series y + 2 * y * (\<Sum>n. diffs gauss_coeff n * y ^ n))"
    using s1 s2 by (rule sums_add)
  moreover have "gauss_coeff n * y ^ n + 2 * real n * gauss_coeff n * y ^ n = (- y / 2) ^ n /\<^sub>R fact n" for n
  proof -
    have k: "k * (a / (f * k)) = a / f" if "k \<noteq> 0" for k a f :: real
      using that by simp
    have "gauss_coeff n * y ^ n + 2 * real n * gauss_coeff n * y ^ n
        = (real (2 * n + 1) * gauss_coeff n) * y ^ n"
      by (simp add: algebra_simps)
    also have "real (2 * n + 1) * gauss_coeff n = (- 1 / 2) ^ n / fact n"
      unfolding gauss_coeff_def by (rule k) simp
    also have "(- 1 / 2) ^ n / fact n * y ^ n = ((- 1 / 2) ^ n * y ^ n) / fact n"
      by (simp only: times_divide_eq_left)
    also have "(- 1 / 2) ^ n * y ^ n = ((- 1 / 2) * y) ^ n"
      by (rule power_mult_distrib [symmetric])
    also have "(- 1 / 2) * y = - y / 2"
      by simp
    also have "(- y / 2) ^ n / fact n = (- y / 2) ^ n /\<^sub>R fact n"
      by (simp add: field_simps)
    finally show ?thesis .
  qed
  ultimately have "(\<lambda>n. (- y / 2) ^ n /\<^sub>R fact n)
      sums (gauss_series y + 2 * y * (\<Sum>n. diffs gauss_coeff n * y ^ n))"
    by simp
  then show ?thesis
    using exp_converges [of "- y / 2"] by (rule sums_unique2)
qed

lemma DERIV_gauss_integral: "DERIV gauss_integral x :> exp (- (x\<^sup>2 / 2))"
proof -
  let ?d = "\<Sum>n. diffs gauss_coeff n * (x\<^sup>2) ^ n"
  have d1: "DERIV (\<lambda>x. x\<^sup>2) x :> 2 * x"
    by (auto intro!: derivative_eq_intros)
  have d2: "DERIV (\<lambda>x. gauss_series (x\<^sup>2)) x :> ?d * (2 * x)"
    by (rule DERIV_chain2 [OF DERIV_gauss_series d1])
  have "DERIV (\<lambda>x. x * gauss_series (x\<^sup>2)) x :> 1 * gauss_series (x\<^sup>2) + (?d * (2 * x)) * x"
    by (rule DERIV_mult [OF DERIV_ident d2])
  moreover have "1 * gauss_series (x\<^sup>2) + (?d * (2 * x)) * x = exp (- x\<^sup>2 / 2)"
    using gauss_series_ode [of "x\<^sup>2"] by (simp add: power2_eq_square algebra_simps)
  ultimately show ?thesis
    by (simp add: gauss_integral_def [abs_def])
qed

lemma gauss_integral_strict_mono:
  assumes "u < v"
  shows "gauss_integral u < gauss_integral v"
proof (rule DERIV_pos_imp_increasing [of u v gauss_integral, OF assms])
  show "\<exists>y. DERIV gauss_integral x :> y \<and> 0 < y" for x
    by (rule exI [of _ "exp (- (x\<^sup>2 / 2))"]) (simp add: DERIV_gauss_integral)
qed


lemma gauss_integral_0: "gauss_integral 0 = 0"
  by (simp add: gauss_integral_def)

lemma sqrt_2pi_pos: "0 < sqrt (2 * pi)"
  by simp

lemma norm_cdf_strict_mono: "u < v \<Longrightarrow> norm_cdf u < norm_cdf v"
  by (simp add: norm_cdf_def gauss_integral_strict_mono divide_strict_right_mono)


lemma norm_cdf_eq_iff: "norm_cdf u = norm_cdf v \<longleftrightarrow> u = v"
  by (metis norm_cdf_strict_mono less_irrefl linorder_neqE_linordered_idom)

lemma norm_cdf_0: "norm_cdf 0 = 1 / 2"
  by (simp add: norm_cdf_def gauss_integral_0)


text \<open>The derivative of the distribution function is the density of the standard normal law.\<close>

lemma DERIV_norm_cdf: "DERIV norm_cdf x :> exp (- (x\<^sup>2 / 2)) / sqrt (2 * pi)"
proof -
  have "DERIV norm_cdf x :> 0 + exp (- (x\<^sup>2 / 2)) / sqrt (2 * pi)"
    unfolding norm_cdf_def [abs_def]
    by (intro DERIV_add DERIV_const DERIV_cdivide DERIV_gauss_integral)
  then show ?thesis
    by simp
qed

lemma isCont_norm_cdf: "isCont norm_cdf x"
  using DERIV_norm_cdf by (rule DERIV_isCont)

lemma norm_ppf_eq: "norm_cdf x = p \<Longrightarrow> norm_ppf p = x"
  unfolding norm_ppf_def
  by (rule the_equality) (auto simp: norm_cdf_eq_iff)

lemma norm_ppf_half: "norm_ppf (1 / 2) = 0"
  by (rule norm_ppf_eq) (rule norm_cdf_0)

text \<open>
  An upper bound on \<open>pi\<close>: the cosine is negative at 1.571, by its Maclaurin expansion with
  remainder, so \<open>pi / 2\<close> lies below that point.
\<close>

lemma sum_less_12:
  fixes f :: "nat \<Rightarrow> real"
  shows "(\<Sum>m<12. f m) = f 0 + f 1 + f 2 + f 3 + f 4 + f 5 + f 6 + f 7 + f 8 + f 9 + f 10 + f 11"
  by (simp add: eval_nat_numeral lessThan_Suc)

lemma cos_partial_12:
  "(\<Sum>m<12. cos_coeff m * (1571 / 1000) ^ m) + (1571 / 1000) ^ 12 / fact 12 < (0::real)"
  unfolding sum_less_12 by (simp add: cos_coeff_def fact_numeral power_divide)

lemma pi_le_3142: "pi \<le> 3142 / 1000"
proof (rule ccontr)
  assume "\<not> pi \<le> 3142 / 1000"
  then have "(1571 / 1000 :: real) < pi / 2"
    by simp
  then have pos: "0 < cos (1571 / 1000 :: real)"
    by (intro cos_gt_zero) simp_all
  obtain t :: real where
    t: "cos (1571 / 1000) = (\<Sum>m<12. cos_coeff m * (1571 / 1000) ^ m)
          + (cos (t + 1 / 2 * real (12::nat) * pi) / fact 12) * (1571 / 1000) ^ 12"
    using Maclaurin_cos_expansion2 [of "1571 / 1000" 12] by auto
  have "cos (t + 1 / 2 * real (12::nat) * pi) / fact 12 * (1571 / 1000) ^ 12
      \<le> 1 / fact 12 * (1571 / 1000) ^ 12"
    by (intro mult_right_mono divide_right_mono) simp_all
  with t have "cos (1571 / 1000 :: real)
      \<le> (\<Sum>m<12. cos_coeff m * (1571 / 1000) ^ m) + (1571 / 1000) ^ 12 / fact 12"
    by simp
  with cos_partial_12 pos show False
    by linarith
qed


text \<open>
  The series alternates, and from index \<open>k \<ge> y / 2\<close> on its terms decrease in absolute
  value: a partial sum with an even number of terms is a lower bound.
\<close>

lemma div_le_inverse:
  fixes a b c :: real
  assumes "0 < b" "0 < c" "a * c \<le> b"
  shows "a / b \<le> 1 / c"
  using assms by (simp add: field_simps)

lemma gauss_tail_nonneg:
  assumes y: "0 \<le> y" "y \<le> 2 * real k" and k: "even k"
  shows "0 \<le> (\<Sum>n. gauss_coeff (n + k) * y ^ (n + k))"
proof -
  define a where "a n = (y / 2) ^ (n + k) / (fact (n + k) * real (2 * (n + k) + 1))" for n
  have tm: "gauss_coeff (n + k) * y ^ (n + k) = (- 1) ^ n * a n" for n
  proof -
    have "(- 1 / 2 :: real) ^ (n + k) * y ^ (n + k) = ((- 1) * (y / 2)) ^ (n + k)"
      by (simp add: power_mult_distrib [symmetric])
    also have "\<dots> = (- 1) ^ (n + k) * (y / 2) ^ (n + k)"
      by (rule power_mult_distrib)
    also have "(- 1 :: real) ^ (n + k) = (- 1) ^ n"
      using k by (simp add: power_add)
    finally show ?thesis
      by (simp add: gauss_coeff_def a_def)
  qed
  have nonneg: "0 \<le> a n" for n
    using y by (simp add: a_def)
  have mono: "a (Suc n) \<le> a n" for n
  proof -
    let ?m = "n + k"
    have half: "y / 2 \<le> real (Suc ?m)"
      using y by simp
    let ?c = "(y / 2) ^ ?m / fact ?m"
    have eq: "a (Suc n) = ?c * ((y / 2) / (real (Suc ?m) * real (2 * ?m + 3)))"
      by (simp add: a_def algebra_simps)
    have le: "(y / 2) / (real (Suc ?m) * real (2 * ?m + 3)) \<le> 1 / real (2 * ?m + 1)"
    proof -
      have "(y / 2) * real (2 * ?m + 1) \<le> real (Suc ?m) * real (2 * ?m + 3)"
        using half y by (intro mult_mono) simp_all
      then show ?thesis
        by (intro div_le_inverse) simp_all
    qed
    have c0: "0 \<le> ?c"
      using y by simp
    have "a (Suc n) \<le> ?c * (1 / real (2 * ?m + 1))"
      unfolding eq by (rule mult_left_mono [OF le c0])
    also have "\<dots> = a n"
      by (simp add: a_def)
    finally show ?thesis .
  qed
  have "summable (\<lambda>n. gauss_coeff (n + k) * y ^ (n + k))"
    using summable_gauss [of y] by (simp add: summable_iff_shift [of "\<lambda>n. gauss_coeff n * y ^ n" k])
  then have "(\<lambda>n. gauss_coeff (n + k) * y ^ (n + k)) \<longlonglongrightarrow> 0"
    by (rule summable_LIMSEQ_zero)
  then have "(\<lambda>n. \<bar>(- 1) ^ n * a n\<bar>) \<longlonglongrightarrow> 0"
    by (simp add: tm tendsto_rabs_zero_iff)
  then have zero: "a \<longlonglongrightarrow> 0"
    using nonneg by (simp add: abs_mult)
  have "(\<Sum>i<2 * 0. (- 1) ^ i * a i) \<le> (\<Sum>i. (- 1) ^ i * a i)"
    by (rule summable_Leibniz'(2) [OF zero nonneg mono])
  then show ?thesis
    by (simp add: tm)
qed

lemma gauss_series_lower:
  assumes "0 \<le> y" "y \<le> 2 * real k" "even k"
  shows "(\<Sum>n<k. gauss_coeff n * y ^ n) \<le> gauss_series y"
proof -
  have "gauss_series y = (\<Sum>n. gauss_coeff (n + k) * y ^ (n + k)) + (\<Sum>n<k. gauss_coeff n * y ^ n)"
    unfolding gauss_series_def
    by (rule suminf_split_initial_segment) (rule summable_gauss)
  with gauss_tail_nonneg [OF assms] show ?thesis
    by simp
qed

text \<open>
  With 28 terms at \<open>x = 4\<close> this gives \<open>norm_cdf 4 \<ge> 0.9999\<close>, and by symmetry
  \<open>norm_cdf (- 4) \<le> 0.0001\<close>: every probability between the clip bounds is taken between
  -4 and 4, and \<open>norm_ppf\<close> is that point. It is strictly increasing there.
\<close>

lemma sqrt_2pi_le_25068: "sqrt (2 * pi) \<le> 25068 / 10000"
proof (rule real_le_lsqrt)
  show "2 * pi \<le> (25068 / 10000)\<^sup>2"
    using pi_le_3142 by (simp add: power2_eq_square)
qed simp

lemma gauss_partial_28: "3133 / 10000 \<le> (\<Sum>n<28. gauss_coeff n * 16 ^ n)"
  by (simp add: lessThan_nat_numeral gauss_coeff_def fact_numeral power_divide)

lemma gauss_integral_4_tight: "12532 / 10000 \<le> gauss_integral 4"
proof -
  have "(\<Sum>n<28. gauss_coeff n * 16 ^ n) \<le> gauss_series 16"
    by (rule gauss_series_lower) simp_all
  with gauss_partial_28 have "3133 / 10000 \<le> gauss_series 16"
    by linarith
  then show ?thesis
    by (simp add: gauss_integral_def)
qed

lemma norm_cdf_4_tight: "9999 / 10000 \<le> norm_cdf 4"
proof -
  have "12532 / 10000 / (25068 / 10000) \<le> gauss_integral 4 / sqrt (2 * pi)"
    using gauss_integral_4_tight sqrt_2pi_le_25068 by (intro frac_le) simp_all
  then show ?thesis
    by (simp add: norm_cdf_def)
qed





lemma norm_ppf_999:
  "norm_cdf (norm_ppf (999 / 1000)) = 999 / 1000"
  "0 < norm_ppf (999 / 1000)"
  "norm_ppf (999 / 1000) \<le> 4"
proof -
  have "\<exists>x. 0 \<le> x \<and> x \<le> 4 \<and> norm_cdf x = 999 / 1000"
    using norm_cdf_4_tight by (intro IVT) (simp_all add: norm_cdf_0 isCont_norm_cdf)
  then obtain x where x: "0 \<le> x" "x \<le> 4" "norm_cdf x = 999 / 1000"
    by blast
  then have p: "norm_ppf (999 / 1000) = x"
    by (intro norm_ppf_eq)
  from x have "x \<noteq> 0"
    by (auto simp: norm_cdf_0)
  with x p show "norm_cdf (norm_ppf (999 / 1000)) = 999 / 1000"
    "0 < norm_ppf (999 / 1000)" "norm_ppf (999 / 1000) \<le> 4"
    by simp_all
qed

text \<open>
  The function and the formula of the specification for a PD inside the clip bounds, and
  the sign and order of the denominator of the maturity adjustment.
\<close>

lemma calculate_rwa_simple_unclipped:
  assumes "1 / 10000 \<le> pd" "pd \<le> 9999 / 10000"
  shows "calculate_rwa_simple ead pd lgd r =
     ead * ((lgd * norm_cdf (sqrt (1 - r) * norm_ppf pd + sqrt r * norm_ppf (999 / 1000)) - pd * lgd)
            * (1 / maturity_denominator pd)) * (25 / 2)"
  using assms by (simp add: calculate_rwa_simple_def clip_def Let_def maturity_denominator_def)

lemma spec_rwa_unclipped:
  assumes "1 / 10000 \<le> pd" "pd \<le> 9999 / 10000"
  shows "spec_rwa ead pd lgd r =
     ead * (lgd * norm_cdf (sqrt (1 / (1 - r)) * norm_ppf pd
                              + sqrt (r / (1 - r)) * norm_ppf (999 / 1000)) - pd * lgd)
         * (1 / maturity_denominator pd) * (25 / 2)"
  using assms by (simp add: spec_rwa_def clip_def Let_def maturity_denominator_def)

lemma ln_clip_lower: "- 12 \<le> ln (1 / 10000 :: real)"
proof -
  have "(3 / 2 :: real) \<le> exp (1 / 2)"
    using exp_ge_add_one_self [of "1 / 2 :: real"] by simp
  then have "(3 / 2 :: real) ^ 24 \<le> exp (1 / 2) ^ 24"
    by (intro power_mono) simp_all
  also have "exp (1 / 2 :: real) ^ 24 = exp (real (24::nat) * (1 / 2))"
    by (rule exp_of_nat_mult [symmetric])
  finally have "(3 / 2 :: real) ^ 24 \<le> exp 12"
    by simp
  moreover have "(10000 :: real) \<le> (3 / 2) ^ 24"
    by (simp add: power_divide)
  ultimately have "(10000 :: real) \<le> exp 12"
    by linarith
  then have "ln (10000 :: real) \<le> ln (exp 12)"
    by (subst ln_le_cancel_iff) simp_all
  then show ?thesis
    by (simp add: ln_div)
qed

lemma maturity_denominator_clipped:
  assumes "1 / 10000 \<le> p" "p < q" "q < 1"
  shows "0 < maturity_denominator p" "maturity_denominator p < maturity_denominator q"
proof -
  have "ln (1 / 10000) \<le> ln p"
    using assms by simp
  with ln_clip_lower have lp: "- 12 \<le> ln p"
    by linarith
  have lpq: "ln p < ln q"
    using assms by simp
  have lq: "ln q < 0"
    using assms by simp
  let ?c = "\<lambda>x. 11852 / 100000 - 5478 / 100000 * ln x :: real"
  have cq: "0 < ?c q" and cpq: "?c q < ?c p" and cp: "?c p \<le> 77588 / 100000"
    using lp lpq lq by simp_all
  have "(?c p)\<^sup>2 \<le> (77588 / 100000)\<^sup>2"
    using cq cpq cp by (intro power_mono) simp_all
  also have "(77588 / 100000 :: real)\<^sup>2 \<le> 61 / 100"
    by (simp add: power2_eq_square)
  finally have "(?c p)\<^sup>2 \<le> 61 / 100" .
  then show "0 < maturity_denominator p"
    unfolding maturity_denominator_def by linarith
  have "(?c q)\<^sup>2 < (?c p)\<^sup>2"
    using cq cpq by (intro power_strict_mono) simp_all
  then show "maturity_denominator p < maturity_denominator q"
    unfolding maturity_denominator_def by linarith
qed

section \<open>Risk-weighted assets: the formula and monotonicity in PD\<close>

lemma half_unclipped: "(1 / 10000 :: real) \<le> 1 / 2" "(1 / 2 :: real) \<le> 9999 / 10000"
  by simp_all

lemma maturity_denominator_half: "0 < maturity_denominator (1 / 2)"
  by (rule maturity_denominator_clipped(1) [of "1 / 2" "3 / 4"]) simp_all

lemma rwa_below_formula_at_half:
  assumes "0 < ead" "0 < lgd" "0 < r" "r < 1"
  shows "calculate_rwa_simple ead (1 / 2) lgd r < spec_rwa ead (1 / 2) lgd r"
proof -
  let ?b = "norm_ppf (999 / 1000)"
  have "r * (1 - r) < r * 1"
    using assms by (intro mult_strict_left_mono) simp_all
  then have "r < r / (1 - r)"
    using assms by (simp add: field_simps)
  then have "sqrt r < sqrt (r / (1 - r))"
    by simp
  then have "sqrt r * ?b < sqrt (r / (1 - r)) * ?b"
    using norm_ppf_999(2) by (rule mult_strict_right_mono)
  then have "norm_cdf (sqrt r * ?b) < norm_cdf (sqrt (r / (1 - r)) * ?b)"
    by (rule norm_cdf_strict_mono)
  then have "lgd * norm_cdf (sqrt r * ?b) < lgd * norm_cdf (sqrt (r / (1 - r)) * ?b)"
    using assms(2) by (rule mult_strict_left_mono)
  then have k: "lgd * norm_cdf (sqrt r * ?b) - 1 / 2 * lgd
      < lgd * norm_cdf (sqrt (r / (1 - r)) * ?b) - 1 / 2 * lgd"
    by simp
  have adj: "0 < 1 / maturity_denominator (1 / 2)"
    using maturity_denominator_half by simp
  have "(lgd * norm_cdf (sqrt r * ?b) - 1 / 2 * lgd) * (1 / maturity_denominator (1 / 2))
      < (lgd * norm_cdf (sqrt (r / (1 - r)) * ?b) - 1 / 2 * lgd) * (1 / maturity_denominator (1 / 2))"
    using k adj by (rule mult_strict_right_mono)
  then have "ead * ((lgd * norm_cdf (sqrt r * ?b) - 1 / 2 * lgd) * (1 / maturity_denominator (1 / 2)))
      < ead * ((lgd * norm_cdf (sqrt (r / (1 - r)) * ?b) - 1 / 2 * lgd) * (1 / maturity_denominator (1 / 2)))"
    using assms(1) by (rule mult_strict_left_mono)
  then have "ead * ((lgd * norm_cdf (sqrt r * ?b) - 1 / 2 * lgd) * (1 / maturity_denominator (1 / 2)))
        * (25 / 2)
      < ead * ((lgd * norm_cdf (sqrt (r / (1 - r)) * ?b) - 1 / 2 * lgd) * (1 / maturity_denominator (1 / 2)))
        * (25 / 2)"
    by (rule mult_strict_right_mono) simp
  moreover have "calculate_rwa_simple ead (1 / 2) lgd r
      = ead * ((lgd * norm_cdf (sqrt r * ?b) - 1 / 2 * lgd) * (1 / maturity_denominator (1 / 2)))
        * (25 / 2)"
    by (simp only: calculate_rwa_simple_unclipped [OF half_unclipped] norm_ppf_half
          mult_zero_right add_0_left)
  moreover have "spec_rwa ead (1 / 2) lgd r
      = ead * ((lgd * norm_cdf (sqrt (r / (1 - r)) * ?b) - 1 / 2 * lgd) * (1 / maturity_denominator (1 / 2)))
        * (25 / 2)"
    by (simp only: spec_rwa_unclipped [OF half_unclipped] norm_ppf_half
          mult_zero_right add_0_left mult.assoc)
  ultimately show ?thesis
    by simp
qed

text \<open>
  C1 (the code against the claim). The claim, like the comment above the code, gives the
  argument of the distribution function as
  \<open>sqrt (1 / (1 - R)) * ppf PD + sqrt (R / (1 - R)) * ppf 0.999\<close>. The code computes
  \<open>sqrt (1 - R) * ppf PD + sqrt R * ppf 0.999\<close>. At EAD 1,000,000, PD 0.5, LGD 0.45 and
  R 0.15 the value returned is strictly below the value of the claimed formula.
\<close>

theorem calculate_rwa_simple_below_formula: "calculate_rwa_simple 1000000 (1 / 2) (45 / 100) (15 / 100)
    < spec_rwa 1000000 (1 / 2) (45 / 100) (15 / 100)"
  by (rule rwa_below_formula_at_half) simp_all










end
